theory Spec2Isabelle
  imports Main "HOL-Library.Sublist"
begin

section \<open>The schemathesis command line: \<open>src/schemathesis/cli/__init__.py\<close>\<close>

text \<open>
  The development embeds the \<open>run\<close> command of the command line interface. The command
  selects the checks, resolves the credential, prunes the options, calls the engine under a
  capture of standard output, prints the report and decides the exit status.

  The engine (\<open>runner.execute\<close>), the tuple \<open>runner.DEFAULT_CHECKS\<close> and the report
  printer (\<open>output.pretty_print_stats\<close>) are collaborators of the command whose code is
  not part of the embedded file: they are parameters of the model, collected in the record
  \<open>env\<close>. The helpers \<open>utils.dict_true_values\<close> and \<open>utils.stdout_listener\<close> are
  modelled from the specification and marked so.
\<close>

subsection \<open>Python values\<close>

text \<open>
  The values that travel through the command: \<open>None\<close>, booleans, integers, strings,
  tuples, dictionaries (association lists in insertion order) and the
  \<open>requests.auth.HTTPDigestAuth\<close> object built from a user name and a password.
\<close>

datatype pyval =
    PNone
  | PBool bool
  | PInt int
  | PStr string
  | PTuple "pyval list"
  | PDict "(string \<times> pyval) list"
  | PDigestAuth string string

text \<open>
  Python's truth test \<open>bool(v)\<close>, used by \<open>if auth\<close>, by \<open>any(...)\<close> and by the pruning
  of options. An \<open>HTTPDigestAuth\<close> object defines neither \<open>__bool__\<close> nor \<open>__len__\<close>, so
  it is true.
\<close>

fun truthy :: "pyval \<Rightarrow> bool" where
  "truthy PNone = False"
| "truthy (PBool b) = b"
| "truthy (PInt i) = (i \<noteq> 0)"
| "truthy (PStr s) = (s \<noteq> [])"
| "truthy (PTuple xs) = (xs \<noteq> [])"
| "truthy (PDict kvs) = (kvs \<noteq> [])"
| "truthy (PDigestAuth u p) = True"

text \<open>\<open>d.get(k)\<close>: the value stored under \<open>k\<close>, \<open>None\<close> when the key is missing.\<close>

definition dict_get :: "(string \<times> pyval) list \<Rightarrow> string \<Rightarrow> pyval" where
  "dict_get d k = (case map_of d k of None \<Rightarrow> PNone | Some v \<Rightarrow> v)"

text \<open>
  Modelled from the spec: \<open>utils.dict_true_values\<close>, whose code is not in the embedded
  file. The specification's \<open>pruneEmpty\<close>: the keyword arguments are kept in their order,
  and an argument whose value is falsy (empty string, empty sequence, empty mapping,
  \<open>None\<close>, boolean false) is omitted from the resulting dictionary.
\<close>

definition dict_true_values :: "(string \<times> pyval) list \<Rightarrow> (string \<times> pyval) list" where
  "dict_true_values kwargs = filter (\<lambda>(key, v). truthy v) kwargs"

subsection \<open>Checks, statistics, exceptions\<close>

text \<open>
  A check is a function of the engine; the command reads its \<open>__name__\<close> only. The second
  field stands for the identity of the function object.
\<close>

datatype check = Check (check_name: string) (check_fn: nat)

text \<open>
  \<open>stats.data\<close>: a dictionary from endpoint to outcome record, each record a dictionary
  itself. \<open>stats_values\<close> is \<open>stats.data.values()\<close>: the records in the order of
  the dictionary.
\<close>

type_synonym stats = "(string \<times> (string \<times> pyval) list) list"

definition stats_values :: "stats \<Rightarrow> (string \<times> pyval) list list" where
  "stats_values data = map snd data"

text \<open>
  Exceptions that leave the command: \<open>click.exceptions.Exit(code)\<close>, a usage error of the
  option parser, and any other exception, raised by the engine.
\<close>

datatype exc = Exit int | UsageError | Failure string

subsection \<open>Standard output and its capture\<close>

text \<open>
  What is written to \<open>sys.stdout\<close>: a line printed by \<open>click.echo\<close>, a line printed in
  a colour (\<open>click.style(text, fg=colour)\<close>), or text written by a collaborator.
\<close>

datatype printed = Echo string | EchoStyled string string | Written string

type_synonym stream = "printed list"

text \<open>
  The process-wide state: the text that reached the real standard output, and the stack of
  buffers that currently replace \<open>sys.stdout\<close> (innermost first). A write goes to the
  innermost buffer, or to the real output when none is active.
\<close>

record world =
  terminal :: stream
  captures :: "stream list"

definition stdout_write :: "printed \<Rightarrow> world \<Rightarrow> world" where
  "stdout_write out w =
     (case captures w of
        [] \<Rightarrow> w\<lparr>terminal := terminal w @ [out]\<rparr>
      | b # bs \<Rightarrow> w\<lparr>captures := (b @ [out]) # bs\<rparr>)"

fun write_all :: "stream \<Rightarrow> world \<Rightarrow> world" where
  "write_all [] w = w"
| "write_all (out # outs) w = write_all outs (stdout_write out w)"

definition echo :: "string \<Rightarrow> world \<Rightarrow> world" where
  "echo msg w = stdout_write (Echo msg) w"

definition echo_styled :: "string \<Rightarrow> string \<Rightarrow> world \<Rightarrow> world" where
  "echo_styled msg fg w = stdout_write (EchoStyled msg fg) w"

text \<open>
  Modelled from the spec: \<open>utils.stdout_listener\<close>, whose code is not in the embedded
  file. The specification's scoped capture: entering acquires a fresh buffer that receives
  every write made while the scope is open; \<open>get_stdout\<close> reads what was buffered so far;
  leaving releases the buffer and restores the previous state of the stream.
\<close>

definition stdout_listener_enter :: "world \<Rightarrow> world" where
  "stdout_listener_enter w = w\<lparr>captures := [] # captures w\<rparr>"

definition get_stdout :: "world \<Rightarrow> stream" where
  "get_stdout w = (case captures w of [] \<Rightarrow> [] | b # bs \<Rightarrow> b)"

definition stdout_listener_exit :: "world \<Rightarrow> world" where
  "stdout_listener_exit w = w\<lparr>captures := tl (captures w)\<rparr>"

subsection \<open>The collaborators\<close>

text \<open>
  \<open>DEFAULT_CHECKS\<close> is \<open>runner.DEFAULT_CHECKS\<close>. \<open>execute\<close> is \<open>runner.execute\<close>: from
  the schema, the selected checks and the keyword options it yields the text it wrote to
  standard output and either the exception it raised or the statistics it returned.
  \<open>pretty_print_stats\<close> is \<open>output.pretty_print_stats\<close>: what it writes for the
  statistics and the captured text.
\<close>

record env =
  DEFAULT_CHECKS :: "check list"
  execute :: "string \<Rightarrow> check list \<Rightarrow> (string \<times> pyval) list \<Rightarrow> stream \<times> (exc + stats)"
  pretty_print_stats :: "stats \<Rightarrow> stream \<Rightarrow> stream"

definition DEFAULT_CHECKS_NAMES :: "env \<Rightarrow> string list" where
  "DEFAULT_CHECKS_NAMES E = map check_name (DEFAULT_CHECKS E)"

subsection \<open>The command \<open>run\<close>\<close>

text \<open>The parameters of \<open>run\<close>, as its signature types them.\<close>

record args =
  schema :: string
  auth :: "(string \<times> string) option"
  auth_type :: string
  headers :: "(string \<times> string) list"
  checks :: "string list"
  endpoints :: "string list option"
  methods :: "string list option"
  base_url :: "string option"

text \<open>
  Line 79: \<open>tuple(check for check in runner.DEFAULT_CHECKS if check.__name__ in checks)\<close>.
\<close>

definition selected_checks :: "env \<Rightarrow> args \<Rightarrow> check list" where
  "selected_checks E a =
     filter (\<lambda>c. check_name c \<in> set (checks a)) (DEFAULT_CHECKS E)"

text \<open>
  Lines 83 and 84: \<open>if auth and auth_type == "digest": auth = HTTPDigestAuth(*auth)\<close>. The
  result is the value of the variable \<open>auth\<close> afterwards. A pair is a non-empty tuple, so
  \<open>auth\<close> is true exactly when it is not \<open>None\<close>.
\<close>

definition resolved_auth :: "args \<Rightarrow> pyval" where
  "resolved_auth a =
     (case auth a of
        None \<Rightarrow> PNone
      | Some (user, password) \<Rightarrow>
          if auth_type a = ''digest'' then PDigestAuth user password
          else PTuple [PStr user, PStr password])"

definition opt_str :: "string option \<Rightarrow> pyval" where
  "opt_str v = (case v of None \<Rightarrow> PNone | Some s \<Rightarrow> PStr s)"

definition opt_filter :: "string list option \<Rightarrow> pyval" where
  "opt_filter v = (case v of None \<Rightarrow> PNone | Some xs \<Rightarrow> PTuple (map PStr xs))"

definition headers_dict :: "(string \<times> string) list \<Rightarrow> pyval" where
  "headers_dict hs = PDict (map (\<lambda>(k, v). (k, PStr v)) hs)"

text \<open>Lines 86 to 89: the two pruned sub-groups, pruned again at the top level.\<close>

definition api_options :: "args \<Rightarrow> (string \<times> pyval) list" where
  "api_options a =
     dict_true_values
       [(''base_url'', opt_str (base_url a)),
        (''auth'', resolved_auth a),
        (''headers'', headers_dict (headers a))]"

definition loader_options :: "args \<Rightarrow> (string \<times> pyval) list" where
  "loader_options a =
     dict_true_values
       [(''endpoint'', opt_filter (endpoints a)),
        (''method'', opt_filter (methods a))]"

definition options :: "args \<Rightarrow> (string \<times> pyval) list" where
  "options a =
     dict_true_values
       [(''api_options'', PDict (api_options a)),
        (''loader_options'', PDict (loader_options a))]"

text \<open>Line 98: \<open>any(value.get("error") for value in stats.data.values())\<close>.\<close>

definition any_error :: "stats \<Rightarrow> bool" where
  "any_error data = list_ex (\<lambda>v. truthy (dict_get v ''error'')) (stats_values data)"

text \<open>
  Lines 95 to 102: the report, an empty line, then the banner; the failure banner is
  followed by \<open>raise click.exceptions.Exit(1)\<close>.
\<close>

definition report :: "env \<Rightarrow> stats \<Rightarrow> stream \<Rightarrow> world \<Rightarrow> (exc + unit) \<times> world" where
  "report E data hypothesis_out w =
     (let w1 = write_all (pretty_print_stats E data hypothesis_out) w;
          w2 = echo [] w1
      in if any_error data
         then (Inl (Exit 1), echo_styled ''Tests failed.'' ''red'' w2)
         else (Inr (), echo_styled ''Tests succeeded.'' ''green'' w2))"

text \<open>
  Lines 91 to 93: the \<open>with\<close> statement. The listener is entered, the engine runs and its
  writes go to the stream; when it returns, \<open>get_stdout()\<close> is read inside the scope. The
  scope is left on both paths; an exception of the engine skips the rest of the body and
  of the command.
\<close>

definition run :: "env \<Rightarrow> args \<Rightarrow> world \<Rightarrow> (exc + unit) \<times> world" where
  "run E a w =
     (let w1 = echo ''Running schemathesis test cases ...'' w;
          w2 = stdout_listener_enter w1;
          (written, result) = execute E (schema a) (selected_checks E a) (options a);
          w3 = write_all written w2
      in case result of
           Inl e \<Rightarrow> (Inl e, stdout_listener_exit w3)
         | Inr data \<Rightarrow>
             (let hypothesis_out = get_stdout w3;
                  w4 = stdout_listener_exit w3
              in report E data hypothesis_out w4))"

subsection \<open>The option declarations of the command\<close>

text \<open>
  \<open>str.lower\<close> on the ASCII letters; other characters are left as they are.
\<close>

definition lower_char :: "char \<Rightarrow> char" where
  "lower_char c =
     (case map_of (zip ''ABCDEFGHIJKLMNOPQRSTUVWXYZ'' ''abcdefghijklmnopqrstuvwxyz'') c of
        None \<Rightarrow> c
      | Some l \<Rightarrow> l)"

definition lower :: "string \<Rightarrow> string" where
  "lower s = map lower_char s"

text \<open>
  \<open>click.Choice(choices, case_sensitive).convert\<close>, the conversion of the library the
  options are declared with: an exact match is returned as it is; otherwise, when the
  choice is not case sensitive, the value and the choices are compared in lower case and
  the lower-cased value is returned. \<open>None\<close> stands for the usage error.
\<close>

definition choice_convert :: "string list \<Rightarrow> bool \<Rightarrow> string \<Rightarrow> string option" where
  "choice_convert choices case_sensitive v =
     (if v \<in> set choices then Some v
      else let normed_value = (if case_sensitive then v else lower v);
               normed_choices = (if case_sensitive then choices else map lower choices)
           in if normed_value \<in> set normed_choices then Some normed_value else None)"

text \<open>
  What the user gave on the command line, after the validators of the schema, of
  \<open>--auth\<close> and of \<open>--header\<close>. An option that takes several values is the list of the
  values given; \<open>--auth-type\<close> and \<open>--base-url\<close> may be left out.
\<close>

record invocation =
  arg_schema :: string
  opt_checks :: "string list"
  opt_auth :: "(string \<times> string) option"
  opt_auth_type :: "string option"
  opt_headers :: "(string \<times> string) list"
  opt_endpoints :: "string list"
  opt_methods :: "string list"
  opt_base_url :: "string option"

text \<open>
  Lines 24 to 31: \<open>--checks\<close> takes several values, each a
  \<open>click.Choice(DEFAULT_CHECKS_NAMES)\<close>, and defaults to \<open>DEFAULT_CHECKS_NAMES\<close>.
\<close>

definition checks_option :: "env \<Rightarrow> string list \<Rightarrow> string list option" where
  "checks_option E given =
     (if given = [] then Some (DEFAULT_CHECKS_NAMES E)
      else those (map (choice_convert (DEFAULT_CHECKS_NAMES E) True) given))"

text \<open>
  Lines 39 to 45: \<open>--auth-type\<close> is a
  \<open>click.Choice(["basic", "digest"], case_sensitive=False)\<close> and defaults to \<open>"basic"\<close>.
\<close>

definition auth_type_option :: "string option \<Rightarrow> string option" where
  "auth_type_option given =
     (case given of
        None \<Rightarrow> Some ''basic''
      | Some v \<Rightarrow> choice_convert [''basic'', ''digest''] False v)"

text \<open>
  The command as the user invokes it: the options are converted to the parameters of
  \<open>run\<close>, then \<open>run\<close> is called with them. A value that is no choice of its option is
  a usage error, and \<open>run\<close> is not called.
\<close>

definition command_args :: "env \<Rightarrow> invocation \<Rightarrow> args option" where
  "command_args E i =
     (case (checks_option E (opt_checks i), auth_type_option (opt_auth_type i)) of
        (Some cs, Some t) \<Rightarrow>
          Some \<lparr>schema = arg_schema i, auth = opt_auth i, auth_type = t,
                headers = opt_headers i, checks = cs,
                endpoints = Some (opt_endpoints i), methods = Some (opt_methods i),
                base_url = opt_base_url i\<rparr>
      | _ \<Rightarrow> None)"

definition run_command :: "env \<Rightarrow> invocation \<Rightarrow> world \<Rightarrow> (exc + unit) \<times> world" where
  "run_command E i w =
     (case command_args E i of
        Some a \<Rightarrow> run E a w
      | None \<Rightarrow> (Inl UsageError, w))"

text \<open>
  The exit status of the process: 0 when the command returns, the code of an \<open>Exit\<close>,
  2 for a usage error, 1 for an exception nobody handles.
\<close>

fun exit_status :: "exc + unit \<Rightarrow> int" where
  "exit_status (Inr u) = 0"
| "exit_status (Inl (Exit code)) = code"
| "exit_status (Inl UsageError) = 2"
| "exit_status (Inl (Failure msg)) = 1"

subsection \<open>What the engine is given\<close>

text \<open>
  The credential among the keyword arguments of \<open>runner.execute\<close>: the entry \<open>auth\<close>
  of the entry \<open>api_options\<close>, when both are there.
\<close>

definition engine_auth :: "args \<Rightarrow> pyval option" where
  "engine_auth a =
     (case map_of (options a) ''api_options'' of
        Some (PDict d) \<Rightarrow> map_of d ''auth''
      | _ \<Rightarrow> None)"

text \<open>
  The error value of the record stored for an endpoint: \<open>data[k].get("error")\<close>, and
  \<open>None\<close> for an endpoint the statistics do not have.
\<close>

definition error_flag :: "stats \<Rightarrow> string \<Rightarrow> pyval" where
  "error_flag data k = (case map_of data k of None \<Rightarrow> PNone | Some r \<Rightarrow> dict_get r ''error'')"

text \<open>
  What the caller of \<open>run\<close> can still see of a text: everything written in it stands in
  the output that reached the terminal or in a buffer that is still active. The exception
  that \<open>run\<close> lets through is the engine's own, so it carries nothing more.
\<close>

definition diagnostics_kept :: "stream \<Rightarrow> (exc + unit) \<times> world \<Rightarrow> bool" where
  "diagnostics_kept written res =
     list_all (\<lambda>out. out \<in> set (terminal (snd res)) \<or>
                     list_ex (\<lambda>b. out \<in> set b) (captures (snd res))) written"

text \<open>The values the pruning drops, as the specification lists them.\<close>

definition falsy_values :: "pyval set" where
  "falsy_values = {PNone, PBool False, PStr [], PTuple [], PDict []}"

subsection \<open>Sample runs\<close>

text \<open>
  A sample engine with two built-in checks. It writes one line of diagnostics; for the
  schema \<open>down\<close> it raises, for the schema \<open>bad\<close> it reports a failing endpoint, and
  otherwise it reports two passing endpoints. The sample printer writes the captured text.
\<close>

definition sample_execute ::
    "string \<Rightarrow> check list \<Rightarrow> (string \<times> pyval) list \<Rightarrow> stream \<times> (exc + stats)" where
  "sample_execute s cs kw =
     (if s = ''down'' then ([Written ''X''], Inl (Failure ''unreachable''))
      else if s = ''bad''
        then ([Written ''X''],
              Inr [(''/users'', [(''total'', PInt 3)]),
                   (''/pets'', [(''total'', PInt 3), (''error'', PInt 2)])])
      else ([Written ''X''],
            Inr [(''/users'', [(''total'', PInt 3)]),
                 (''/pets'', [(''total'', PInt 3), (''error'', PInt 0)])]))"

definition sample_env :: env where
  "sample_env =
     \<lparr>DEFAULT_CHECKS = [Check ''not_a_server_error'' 0, Check ''status_code'' 1],
      execute = sample_execute,
      pretty_print_stats = (\<lambda>data hypothesis_out. hypothesis_out)\<rparr>"

definition silent_env :: env where
  "silent_env =
     sample_env\<lparr>execute := (\<lambda>s cs kw. ([], Inl (Failure ''unreachable'')))\<rparr>"

text \<open>
  An engine that reports the same error values as the sample engine does for a passing
  schema, with other details, in another order, and without writing diagnostics.
\<close>

definition terse_env :: env where
  "terse_env =
     sample_env\<lparr>execute := (\<lambda>s cs kw.
       ([], Inr [(''/pets'', [(''error'', PInt 0), (''details'', PStr ''slow'')]),
                 (''/users'', [])]))\<rparr>"

text \<open>An engine that reports the keyword arguments it was called with, as a record.\<close>

definition probe_env :: env where
  "probe_env = sample_env\<lparr>execute := (\<lambda>s cs kw. ([], Inr [(''keywords'', kw)]))\<rparr>"

definition sample_args :: "string \<Rightarrow> args" where
  "sample_args s =
     \<lparr>schema = s, auth = None, auth_type = ''basic'', headers = [],
      checks = [''not_a_server_error'', ''status_code''],
      endpoints = Some [], methods = Some [], base_url = None\<rparr>"

definition digest_args :: args where
  "digest_args =
     \<lparr>schema = ''ok'', auth = Some (''admin'', ''secret''), auth_type = ''digest'',
      headers = [(''X-Test'', ''1'')], checks = [''status_code'', ''status_code''],
      endpoints = Some [''/users''], methods = Some [], base_url = None\<rparr>"

definition sample_invocation :: "string \<Rightarrow> invocation" where
  "sample_invocation mode =
     \<lparr>arg_schema = ''ok'', opt_checks = [], opt_auth = Some (''u'', ''p''),
      opt_auth_type = Some mode, opt_headers = [], opt_endpoints = [],
      opt_methods = [], opt_base_url = None\<rparr>"

definition quiet :: world where
  "quiet = \<lparr>terminal = [], captures = []\<rparr>"

section \<open>Properties\<close>

subsection \<open>The capture scope and the two paths of \<open>run\<close>\<close>

lemma write_all_captured:
  "captures w = b # bs \<Longrightarrow> write_all outs w = w\<lparr>captures := (b @ outs) # bs\<rparr>"
proof (induction outs arbitrary: w b)
  case Nil
  then show ?case by simp
next
  case (Cons out outs)
  have "captures (stdout_write out w) = (b @ [out]) # bs"
    using Cons.prems by (simp add: stdout_write_def)
  from Cons.IH [OF this] show ?case
    using Cons.prems by (simp add: stdout_write_def)
qed

lemma length_captures_write [simp]:
  "length (captures (stdout_write out w)) = length (captures w)"
  by (simp add: stdout_write_def split: list.split)

lemma length_captures_write_all [simp]:
  "length (captures (write_all outs w)) = length (captures w)"
  by (induction outs arbitrary: w) simp_all

text \<open>
  Whatever is written inside the scope lands in the listener's buffer, and leaving the
  scope gives back the state from before it was entered.
\<close>

lemma listener_scope:
  "stdout_listener_exit (write_all outs (stdout_listener_enter w)) = w"
  "get_stdout (write_all outs (stdout_listener_enter w)) = outs"
  by (simp_all add: write_all_captured [of _ "[]" "captures w"]
        stdout_listener_enter_def stdout_listener_exit_def get_stdout_def)

lemma run_raises:
  assumes "execute E (schema a) (selected_checks E a) (options a) = (written, Inl e)"
  shows "run E a w = (Inl e, echo ''Running schemathesis test cases ...'' w)"
  using assms by (simp add: run_def Let_def listener_scope)

lemma run_returns:
  assumes "execute E (schema a) (selected_checks E a) (options a) = (written, Inr data)"
  shows "run E a w = report E data written (echo ''Running schemathesis test cases ...'' w)"
  using assms by (simp add: run_def Let_def listener_scope)

lemma any_error_iff:
  "any_error data \<longleftrightarrow> (\<exists>r \<in> set (stats_values data). truthy (dict_get r ''error''))"
  by (simp add: any_error_def list_ex_iff)

lemma length_captures_report [simp]:
  "length (captures (snd (report E data out w))) = length (captures w)"
  by (simp add: report_def Let_def echo_def echo_styled_def)

subsection \<open>Check selection\<close>

lemma count_list_filter:
  "count_list (filter P xs) c = (if P c then count_list xs c else 0)"
  by (induction xs) auto

lemma selected_all:
  "checks a = DEFAULT_CHECKS_NAMES E \<Longrightarrow> selected_checks E a = DEFAULT_CHECKS E"
  by (simp add: selected_checks_def DEFAULT_CHECKS_NAMES_def)

lemma command_default_checks:
  "opt_checks i = [] \<Longrightarrow> command_args E i = Some a \<Longrightarrow> checks a = DEFAULT_CHECKS_NAMES E"
  by (auto simp: command_args_def checks_option_def split: option.splits)

text \<open>
  Claim C7. The selected checks are exactly the built-in checks whose name is among the
  requested names: the same members, each as often as \<open>DEFAULT_CHECKS\<close> lists it, in the
  order of \<open>DEFAULT_CHECKS\<close> (the selection is a subsequence of it). When the requested
  names are \<open>DEFAULT_CHECKS_NAMES\<close>, which is what the command passes when the user gives
  no \<open>--checks\<close>, every built-in check is selected.
\<close>

theorem selected_checks_canonical:
  "set (selected_checks E a) = {c \<in> set (DEFAULT_CHECKS E). check_name c \<in> set (checks a)}
   \<and> subseq (selected_checks E a) (DEFAULT_CHECKS E)
   \<and> (\<forall>c. count_list (selected_checks E a) c =
          (if check_name c \<in> set (checks a) then count_list (DEFAULT_CHECKS E) c else 0))
   \<and> (checks a = DEFAULT_CHECKS_NAMES E \<longrightarrow> selected_checks E a = DEFAULT_CHECKS E)
   \<and> (opt_checks i = [] \<and> command_args E i = Some a \<longrightarrow>
          selected_checks E a = DEFAULT_CHECKS E)"
proof (intro conjI allI impI)
  show "set (selected_checks E a) =
      {c \<in> set (DEFAULT_CHECKS E). check_name c \<in> set (checks a)}"
    by (simp add: selected_checks_def)
  show "subseq (selected_checks E a) (DEFAULT_CHECKS E)"
    by (simp add: selected_checks_def)
  show "count_list (selected_checks E a) c =
      (if check_name c \<in> set (checks a) then count_list (DEFAULT_CHECKS E) c else 0)" for c
    by (simp add: selected_checks_def count_list_filter)
  show "selected_checks E a = DEFAULT_CHECKS E" if "checks a = DEFAULT_CHECKS_NAMES E"
    using that by (rule selected_all)
  show "selected_checks E a = DEFAULT_CHECKS E"
    if "opt_checks i = [] \<and> command_args E i = Some a"
    using that by (blast intro: selected_all command_default_checks)
qed

theorem selected_checks_canonical_witness:
  "selected_checks sample_env (sample_args ''ok'') =
     [Check ''not_a_server_error'' 0, Check ''status_code'' 1]
   \<and> set (selected_checks sample_env digest_args) = {Check ''status_code'' 1}"
proof -
  have names: "checks (sample_args ''ok'') = DEFAULT_CHECKS_NAMES sample_env"
    by (simp add: sample_args_def DEFAULT_CHECKS_NAMES_def sample_env_def)
  have "selected_checks sample_env (sample_args ''ok'') = DEFAULT_CHECKS sample_env"
    using selected_checks_canonical [of sample_env "sample_args ''ok''"] names by simp
  then have one: "selected_checks sample_env (sample_args ''ok'') =
      [Check ''not_a_server_error'' 0, Check ''status_code'' 1]"
    by (simp add: sample_env_def)
  have "set (selected_checks sample_env digest_args) =
      {c \<in> set (DEFAULT_CHECKS sample_env). check_name c \<in> set (checks digest_args)}"
    using selected_checks_canonical [of sample_env digest_args] by simp
  also have "\<dots> = {Check ''status_code'' 1}"
    by (auto simp: sample_env_def digest_args_def)
  finally show ?thesis using one by simp
qed

text \<open>
  Claim C9. The selection depends on the set of requested names only: two requests with
  the same names, in any order and with any repetition, select the same tuple. A check
  never occurs more often in the selection than in \<open>DEFAULT_CHECKS\<close>; so when the
  built-in checks are pairwise different, each is selected at most once, however often its
  name was requested.
\<close>

theorem selected_checks_request_order:
  "(set (checks a) = set (checks b) \<longrightarrow> selected_checks E a = selected_checks E b)
   \<and> (distinct (DEFAULT_CHECKS E) \<longrightarrow> distinct (selected_checks E a))
   \<and> count_list (selected_checks E a) c \<le> count_list (DEFAULT_CHECKS E) c"
  by (simp add: selected_checks_def count_list_filter)

theorem selected_checks_request_order_witness:
  "selected_checks sample_env digest_args =
     selected_checks sample_env (digest_args\<lparr>checks := [''status_code'']\<rparr>)
   \<and> distinct (selected_checks sample_env digest_args)"
proof -
  have same: "set (checks digest_args) = set (checks (digest_args\<lparr>checks := [''status_code'']\<rparr>))"
    by (simp add: digest_args_def)
  have dist: "distinct (DEFAULT_CHECKS sample_env)"
    by (simp add: sample_env_def)
  note order = selected_checks_request_order
      [of digest_args "digest_args\<lparr>checks := [''status_code'']\<rparr>" sample_env
        "Check ''status_code'' 1"]
  from order same have "selected_checks sample_env digest_args =
      selected_checks sample_env (digest_args\<lparr>checks := [''status_code'']\<rparr>)"
    by blast
  moreover from order dist have "distinct (selected_checks sample_env digest_args)"
    by blast
  ultimately show ?thesis by (rule conjI)
qed

subsection \<open>The decision\<close>


lemma fst_report:
  "fst (report E data out w) = (if any_error data then Inl (Exit 1) else Inr ())"
  by (simp add: report_def Let_def)

lemma snd_report_failed:
  "any_error data \<Longrightarrow> snd (report E data out w) =
     echo_styled ''Tests failed.'' ''red'' (echo [] (write_all (pretty_print_stats E data out) w))"
  by (simp add: report_def Let_def)

lemma snd_report_succeeded:
  "\<not> any_error data \<Longrightarrow> snd (report E data out w) =
     echo_styled ''Tests succeeded.'' ''green''
       (echo [] (write_all (pretty_print_stats E data out) w))"
  by (simp add: report_def Let_def)

lemma fst_run_returns:
  assumes "execute E (schema a) (selected_checks E a) (options a) = (written, Inr data)"
  shows "fst (run E a w) = (if any_error data then Inl (Exit 1) else Inr ())"
  by (simp add: run_returns [OF assms] fst_report)

lemma any_error_by_endpoint:
  assumes "distinct (map fst data)"
  shows "any_error data \<longleftrightarrow> (\<exists>k \<in> set (map fst data). truthy (error_flag data k))"
proof
  assume "any_error data"
  then obtain k r where kr: "(k, r) \<in> set data" and t: "truthy (dict_get r ''error'')"
    by (auto simp: any_error_iff stats_values_def)
  from kr assms have "map_of data k = Some r" by simp
  with t have "truthy (error_flag data k)" by (simp add: error_flag_def)
  moreover from kr have "k \<in> set (map fst data)" by force
  ultimately show "\<exists>k \<in> set (map fst data). truthy (error_flag data k)" by blast
next
  assume "\<exists>k \<in> set (map fst data). truthy (error_flag data k)"
  then obtain k where k: "k \<in> set (map fst data)" and t: "truthy (error_flag data k)"
    by blast
  from t obtain r where r: "map_of data k = Some r" and tr: "truthy (dict_get r ''error'')"
    by (auto simp: error_flag_def split: option.splits)
  from r have "(k, r) \<in> set data" by (rule map_of_SomeD)
  then have "r \<in> set (stats_values data)" by (force simp: stats_values_def)
  with tr show "any_error data" by (auto simp: any_error_iff)
qed

text \<open>
  Claim C2. When the engine returns statistics, the command returns without raising
  (exit status 0) exactly when no record of the statistics has a true error value, and
  raises \<open>Exit(1)\<close> (exit status 1) exactly when some record has one; in that case the
  last thing it prints, after the report and the empty line, is the failure banner. Empty
  statistics are a success.
\<close>

theorem run_exit_status:
  assumes "execute E (schema a) (selected_checks E a) (options a) = (written, Inr data)"
  shows "(fst (run E a w) = Inr () \<longleftrightarrow>
            (\<forall>r \<in> set (stats_values data). \<not> truthy (dict_get r ''error'')))
   \<and> (exit_status (fst (run E a w)) = 0 \<longleftrightarrow>
            (\<forall>r \<in> set (stats_values data). \<not> truthy (dict_get r ''error'')))
   \<and> (fst (run E a w) = Inl (Exit 1) \<longleftrightarrow>
            (\<exists>r \<in> set (stats_values data). truthy (dict_get r ''error'')))
   \<and> (exit_status (fst (run E a w)) = 1 \<longleftrightarrow>
            (\<exists>r \<in> set (stats_values data). truthy (dict_get r ''error'')))
   \<and> ((\<exists>r \<in> set (stats_values data). truthy (dict_get r ''error'')) \<longrightarrow>
          snd (run E a w) =
            echo_styled ''Tests failed.'' ''red''
              (echo [] (write_all (pretty_print_stats E data written)
                 (echo ''Running schemathesis test cases ...'' w))))
   \<and> (data = [] \<longrightarrow> fst (run E a w) = Inr ())"
proof -
  note outcome = fst_run_returns [OF assms, of w]
  have banner: "snd (run E a w) =
      echo_styled ''Tests failed.'' ''red''
        (echo [] (write_all (pretty_print_stats E data written)
           (echo ''Running schemathesis test cases ...'' w)))" if "any_error data"
    using that by (simp add: run_returns [OF assms] snd_report_failed)
  have empty: "\<not> any_error []" by (simp add: any_error_def stats_values_def)
  show ?thesis
  proof (cases "any_error data")
    case True
    then have "data \<noteq> []" using empty by auto
    moreover from True have "\<exists>r \<in> set (stats_values data). truthy (dict_get r ''error'')"
      by (simp add: any_error_iff)
    ultimately show ?thesis using True outcome banner by auto
  next
    case False
    then have "\<forall>r \<in> set (stats_values data). \<not> truthy (dict_get r ''error'')"
      by (simp add: any_error_iff)
    then show ?thesis using False outcome by auto
  qed
qed

theorem run_exit_status_witness:
  "exit_status (fst (run sample_env (sample_args ''bad'') quiet)) = 1
   \<and> exit_status (fst (run sample_env (sample_args ''ok'') quiet)) = 0
   \<and> snd (run sample_env (sample_args ''bad'') quiet) =
       \<lparr>terminal = [Echo ''Running schemathesis test cases ...'', Written ''X'', Echo [],
          EchoStyled ''Tests failed.'' ''red''], captures = []\<rparr>"
proof -
  let ?bad = "[(''/users'', [(''total'', PInt 3)]),
               (''/pets'', [(''total'', PInt 3), (''error'', PInt 2)])]"
  let ?ok = "[(''/users'', [(''total'', PInt 3)]),
              (''/pets'', [(''total'', PInt 3), (''error'', PInt 0)])]"
  have bad: "execute sample_env (schema (sample_args ''bad''))
      (selected_checks sample_env (sample_args ''bad'')) (options (sample_args ''bad'')) =
      ([Written ''X''], Inr ?bad)"
    by (simp add: sample_env_def sample_execute_def sample_args_def)
  have ok: "execute sample_env (schema (sample_args ''ok''))
      (selected_checks sample_env (sample_args ''ok'')) (options (sample_args ''ok'')) =
      ([Written ''X''], Inr ?ok)"
    by (simp add: sample_env_def sample_execute_def sample_args_def)
  have flagged: "\<exists>r \<in> set (stats_values ?bad). truthy (dict_get r ''error'')"
    by (simp add: stats_values_def dict_get_def)
  have clean: "\<forall>r \<in> set (stats_values ?ok). \<not> truthy (dict_get r ''error'')"
    by (simp add: stats_values_def dict_get_def)
  have printer: "pretty_print_stats sample_env ?bad [Written ''X''] = [Written ''X'']"
    by (simp add: sample_env_def)
  from run_exit_status [OF bad, of quiet] flagged
  have "exit_status (fst (run sample_env (sample_args ''bad'') quiet)) = 1"
    and "snd (run sample_env (sample_args ''bad'') quiet) =
      echo_styled ''Tests failed.'' ''red''
        (echo [] (write_all (pretty_print_stats sample_env ?bad [Written ''X''])
           (echo ''Running schemathesis test cases ...'' quiet)))"
    by blast+
  moreover from run_exit_status [OF ok, of quiet] clean
  have "exit_status (fst (run sample_env (sample_args ''ok'') quiet)) = 0"
    by blast
  ultimately show ?thesis
    by (simp add: printer quiet_def echo_def echo_styled_def stdout_write_def)
qed

lemma exit_status_run_returns:
  assumes "execute E (schema a) (selected_checks E a) (options a) = (written, Inr data)"
  shows "exit_status (fst (run E a w)) = (if any_error data then 1 else 0)"
  by (simp add: fst_run_returns [OF assms])

lemma dict_get_missing: "map_of r k = None \<Longrightarrow> dict_get r k = PNone"
  by (simp add: dict_get_def)

lemma dict_get_truthy:
  "truthy (dict_get r k) \<longleftrightarrow> (\<exists>v. map_of r k = Some v \<and> truthy v)"
  by (simp add: dict_get_def split: option.split)

text \<open>
  Claim C8. The decision is Python's truth test of \<open>value.get("error")\<close>: a record
  whose error value is true makes the exit status 1, in particular a non-empty string or
  a number other than zero; the exit status is 1 only when some record stores a true value
  under \<open>error\<close>; and when every record lacks the key, the exit status is 0.
\<close>

theorem failure_decision_truthiness:
  assumes "execute E (schema a) (selected_checks E a) (options a) = (written, Inr data)"
  shows "(\<forall>r \<in> set (stats_values data).
            truthy (dict_get r ''error'') \<longrightarrow> exit_status (fst (run E a w)) = 1)
   \<and> (\<forall>r \<in> set (stats_values data). \<forall>s.
            dict_get r ''error'' = PStr s \<and> s \<noteq> [] \<longrightarrow> exit_status (fst (run E a w)) = 1)
   \<and> (\<forall>r \<in> set (stats_values data). \<forall>n.
            dict_get r ''error'' = PInt n \<and> n \<noteq> 0 \<longrightarrow> exit_status (fst (run E a w)) = 1)
   \<and> (exit_status (fst (run E a w)) = 1 \<longleftrightarrow>
          (\<exists>r \<in> set (stats_values data). \<exists>v. map_of r ''error'' = Some v \<and> truthy v))
   \<and> ((\<forall>r \<in> set (stats_values data). map_of r ''error'' = None) \<longrightarrow>
          exit_status (fst (run E a w)) = 0)"
proof -
  note status = exit_status_run_returns [OF assms, of w]
  have fails: "exit_status (fst (run E a w)) = 1"
    if "r \<in> set (stats_values data)" "truthy (dict_get r ''error'')" for r
    using that status by (auto simp: any_error_iff)
  have needs: "exit_status (fst (run E a w)) = 1 \<longleftrightarrow>
      (\<exists>r \<in> set (stats_values data). \<exists>v. map_of r ''error'' = Some v \<and> truthy v)"
    using status by (simp add: any_error_iff dict_get_truthy)
  have lacking: "exit_status (fst (run E a w)) = 0"
    if "\<forall>r \<in> set (stats_values data). map_of r ''error'' = None"
    using that status by (auto simp: any_error_iff dict_get_missing)
  show ?thesis
  proof (intro conjI ballI allI impI)
    fix r s
    assume "r \<in> set (stats_values data)" "dict_get r ''error'' = PStr s \<and> s \<noteq> []"
    then show "exit_status (fst (run E a w)) = 1" using fails [of r] by simp
  next
    fix r n
    assume "r \<in> set (stats_values data)" "dict_get r ''error'' = PInt n \<and> n \<noteq> 0"
    then show "exit_status (fst (run E a w)) = 1" using fails [of r] by simp
  qed (use fails needs lacking in blast)+
qed

theorem failure_decision_truthiness_witness:
  "exit_status (fst (run sample_env (sample_args ''bad'') quiet)) = 1
   \<and> dict_get [(''total'', PInt 3), (''error'', PInt 2)] ''error'' = PInt 2
   \<and> map_of [(''total'', PInt 3)] ''error'' = None"
proof -
  let ?bad = "[(''/users'', [(''total'', PInt 3)]),
               (''/pets'', [(''total'', PInt 3), (''error'', PInt 2)])]"
  have bad: "execute sample_env (schema (sample_args ''bad''))
      (selected_checks sample_env (sample_args ''bad'')) (options (sample_args ''bad'')) =
      ([Written ''X''], Inr ?bad)"
    by (simp add: sample_env_def sample_execute_def sample_args_def)
  have member: "[(''total'', PInt 3), (''error'', PInt 2)] \<in> set (stats_values ?bad)"
    by (simp add: stats_values_def)
  have count: "dict_get [(''total'', PInt 3), (''error'', PInt 2)] ''error'' = PInt 2"
    by (simp add: dict_get_def)
  have "(2::int) \<noteq> 0" by simp
  with failure_decision_truthiness [OF bad, of quiet] member count
  have "exit_status (fst (run sample_env (sample_args ''bad'') quiet)) = 1"
    by blast
  with count show ?thesis by simp
qed

text \<open>
  Claim C10. Two statistics with the same endpoints and the same error value for each
  endpoint give the same outcome and exit status, whatever else the records hold and
  whatever the engines wrote. The statistics are dictionaries, so their keys are distinct.
\<close>

theorem exit_status_error_flags_only:
  assumes "execute E (schema a) (selected_checks E a) (options a) = (written, Inr data)"
    and "execute E' (schema a') (selected_checks E' a') (options a') = (written', Inr data')"
    and "distinct (map fst data)" and "distinct (map fst data')"
    and "set (map fst data) = set (map fst data')"
    and "\<forall>k \<in> set (map fst data). error_flag data k = error_flag data' k"
  shows "exit_status (fst (run E a w)) = exit_status (fst (run E' a' w'))
   \<and> fst (run E a w) = fst (run E' a' w')"
proof -
  have "any_error data \<longleftrightarrow> any_error data'"
    using assms(5,6) by (simp add: any_error_by_endpoint assms(3,4))
  then show ?thesis
    by (simp add: fst_run_returns [OF assms(1)] fst_run_returns [OF assms(2)])
qed

theorem exit_status_error_flags_only_witness:
  "exit_status (fst (run sample_env (sample_args ''ok'') quiet)) =
     exit_status (fst (run terse_env (sample_args ''ok'') quiet))
   \<and> exit_status (fst (run terse_env (sample_args ''ok'') quiet)) = 0"
proof -
  let ?ok = "[(''/users'', [(''total'', PInt 3)]),
              (''/pets'', [(''total'', PInt 3), (''error'', PInt 0)])]"
  let ?terse = "[(''/pets'', [(''error'', PInt 0), (''details'', PStr ''slow'')]),
                 (''/users'', [])]"
  have ok: "execute sample_env (schema (sample_args ''ok''))
      (selected_checks sample_env (sample_args ''ok'')) (options (sample_args ''ok'')) =
      ([Written ''X''], Inr ?ok)"
    by (simp add: sample_env_def sample_execute_def sample_args_def)
  have terse: "execute terse_env (schema (sample_args ''ok''))
      (selected_checks terse_env (sample_args ''ok'')) (options (sample_args ''ok'')) =
      ([], Inr ?terse)"
    by (simp add: terse_env_def)
  have keys: "distinct (map fst ?ok)" "distinct (map fst ?terse)"
    "set (map fst ?ok) = set (map fst ?terse)"
    by auto
  have flags: "\<forall>k \<in> set (map fst ?ok). error_flag ?ok k = error_flag ?terse k"
    by (simp add: error_flag_def dict_get_def)
  from exit_status_error_flags_only [OF ok terse keys flags, of quiet quiet]
  have same: "exit_status (fst (run sample_env (sample_args ''ok'') quiet)) =
      exit_status (fst (run terse_env (sample_args ''ok'') quiet))"
    by simp
  have "exit_status (fst (run sample_env (sample_args ''ok'') quiet)) = 0"
    by (simp add: exit_status_run_returns [OF ok] any_error_def stats_values_def dict_get_def)
  with same show ?thesis by simp
qed

subsection \<open>The options of the engine\<close>


lemma truthy_not_falsy: "truthy v \<Longrightarrow> v \<notin> falsy_values"
  by (cases v) (auto simp: falsy_values_def)

lemma dict_true_values_truthy:
  "(k, v) \<in> set (dict_true_values kw) \<Longrightarrow> truthy v"
  by (auto simp: dict_true_values_def)

lemma dict_true_values_not_falsy:
  "\<forall>(k, v) \<in> set (dict_true_values kw). v \<notin> falsy_values"
  using dict_true_values_truthy truthy_not_falsy by fastforce

lemma truthy_opt_str: "truthy (opt_str v) \<longleftrightarrow> v \<noteq> None \<and> v \<noteq> Some []"
  by (cases v) (auto simp: opt_str_def)

lemma truthy_opt_filter: "truthy (opt_filter v) \<longleftrightarrow> v \<noteq> None \<and> v \<noteq> Some []"
  by (cases v) (auto simp: opt_filter_def)

lemma truthy_resolved_auth: "truthy (resolved_auth a) \<longleftrightarrow> auth a \<noteq> None"
  by (auto simp: resolved_auth_def split: option.split)

lemma truthy_headers_dict: "truthy (headers_dict hs) \<longleftrightarrow> hs \<noteq> []"
  by (simp add: headers_dict_def)

lemmas truthy_fields =
  truthy_opt_str truthy_opt_filter truthy_resolved_auth truthy_headers_dict

lemma api_options_auth:
  "map_of (api_options a) ''auth'' = (if auth a = None then None else Some (resolved_auth a))"
  by (simp add: api_options_def dict_true_values_def truthy_fields)

lemma api_options_base_url:
  "map_of (api_options a) ''base_url'' =
     (if base_url a = None \<or> base_url a = Some [] then None else Some (opt_str (base_url a)))"
  by (simp add: api_options_def dict_true_values_def truthy_fields)

lemma api_options_headers:
  "map_of (api_options a) ''headers'' =
     (if headers a = [] then None else Some (headers_dict (headers a)))"
  by (simp add: api_options_def dict_true_values_def truthy_fields)

lemma loader_options_endpoint:
  "map_of (loader_options a) ''endpoint'' =
     (if endpoints a = None \<or> endpoints a = Some [] then None
      else Some (opt_filter (endpoints a)))"
  by (simp add: loader_options_def dict_true_values_def truthy_fields)

lemma loader_options_method:
  "map_of (loader_options a) ''method'' =
     (if methods a = None \<or> methods a = Some [] then None
      else Some (opt_filter (methods a)))"
  by (simp add: loader_options_def dict_true_values_def truthy_fields)

lemma api_options_empty:
  "api_options a = [] \<longleftrightarrow>
     (base_url a = None \<or> base_url a = Some []) \<and> auth a = None \<and> headers a = []"
  by (cases "auth a") (auto simp: api_options_def dict_true_values_def truthy_fields)

lemma loader_options_empty:
  "loader_options a = [] \<longleftrightarrow>
     (endpoints a = None \<or> endpoints a = Some []) \<and> (methods a = None \<or> methods a = Some [])"
  by (simp add: loader_options_def dict_true_values_def truthy_fields)

lemma options_api:
  "map_of (options a) ''api_options'' =
     (if api_options a = [] then None else Some (PDict (api_options a)))"
  by (simp add: options_def dict_true_values_def)

lemma options_loader:
  "map_of (options a) ''loader_options'' =
     (if loader_options a = [] then None else Some (PDict (loader_options a)))"
  by (simp add: options_def dict_true_values_def)

lemma options_empty:
  "options a = [] \<longleftrightarrow> api_options a = [] \<and> loader_options a = []"
  by (simp add: options_def dict_true_values_def)

lemma options_keys: "fst ` set (options a) \<subseteq> {''api_options'', ''loader_options''}"
  by (auto simp: options_def dict_true_values_def)

lemma engine_auth_eq:
  "engine_auth a = (if auth a = None then None else Some (resolved_auth a))"
proof (cases "api_options a = []")
  case True
  then show ?thesis by (simp add: engine_auth_def options_api api_options_empty)
next
  case False
  then show ?thesis by (simp add: engine_auth_def options_api api_options_auth)
qed

lemma report_execute_update:
  "report (E\<lparr>execute := f\<rparr>) = report E"
  by (simp add: report_def fun_eq_iff)

lemma selected_checks_execute_update:
  "selected_checks (E\<lparr>execute := f\<rparr>) a = selected_checks E a"
  by (simp add: selected_checks_def)

lemma run_without_options:
  assumes "options a = []"
  shows "run E a w = run (E\<lparr>execute := (\<lambda>s cs kw. execute E s cs [])\<rparr>) a w"
proof -
  let ?E = "E\<lparr>execute := (\<lambda>s cs kw. execute E s cs [])\<rparr>"
  obtain written result
    where call: "execute E (schema a) (selected_checks E a) (options a) = (written, result)"
    by fastforce
  then have call': "execute ?E (schema a) (selected_checks ?E a) (options a) = (written, result)"
    using assms by (simp add: selected_checks_execute_update)
  show ?thesis
  proof (cases result)
    case (Inl e)
    with call call' show ?thesis by (simp add: run_raises)
  next
    case (Inr data)
    with call call' show ?thesis by (simp add: run_returns report_execute_update)
  qed
qed

text \<open>
  Claim C1. No entry of the keyword options, of the group \<open>api_options\<close> or of the group
  \<open>loader_options\<close> holds an empty string, an empty sequence, an empty mapping, \<open>None\<close>
  or \<open>False\<close>. A field is present in its group exactly when its value is not empty, and
  then with that value; a group is present among the keyword arguments exactly when it is
  not empty, that is, when one of its fields was given. With no base URL, no credential,
  no header and no filter the options are empty: \<open>run\<close> behaves as it does with an
  engine that is called with the schema and the selected checks alone.

  These pruned options are what \<open>run\<close> passes to \<open>runner.execute\<close>: the outcome of
  \<open>run\<close> is the one of the engine called with the schema, the selected checks and
  exactly \<open>options a\<close>, both when the engine raises and when it returns, and it
  depends on the engine at no other arguments.
\<close>

theorem options_pruned:
  "(\<forall>(k, v) \<in> set (options a). v \<notin> falsy_values)
   \<and> (\<forall>(k, v) \<in> set (api_options a). v \<notin> falsy_values)
   \<and> (\<forall>(k, v) \<in> set (loader_options a). v \<notin> falsy_values)
   \<and> fst ` set (options a) \<subseteq> {''api_options'', ''loader_options''}
   \<and> map_of (options a) ''api_options'' =
       (if api_options a = [] then None else Some (PDict (api_options a)))
   \<and> map_of (options a) ''loader_options'' =
       (if loader_options a = [] then None else Some (PDict (loader_options a)))
   \<and> (api_options a = [] \<longleftrightarrow>
        (base_url a = None \<or> base_url a = Some []) \<and> auth a = None \<and> headers a = [])
   \<and> (loader_options a = [] \<longleftrightarrow>
        (endpoints a = None \<or> endpoints a = Some []) \<and>
        (methods a = None \<or> methods a = Some []))
   \<and> map_of (api_options a) ''base_url'' =
       (if base_url a = None \<or> base_url a = Some [] then None
        else Some (opt_str (base_url a)))
   \<and> map_of (api_options a) ''auth'' =
       (if auth a = None then None else Some (resolved_auth a))
   \<and> map_of (api_options a) ''headers'' =
       (if headers a = [] then None else Some (headers_dict (headers a)))
   \<and> map_of (loader_options a) ''endpoint'' =
       (if endpoints a = None \<or> endpoints a = Some [] then None
        else Some (opt_filter (endpoints a)))
   \<and> map_of (loader_options a) ''method'' =
       (if methods a = None \<or> methods a = Some [] then None
        else Some (opt_filter (methods a)))
   \<and> ((base_url a = None \<or> base_url a = Some []) \<and> auth a = None \<and> headers a = [] \<and>
        (endpoints a = None \<or> endpoints a = Some []) \<and>
        (methods a = None \<or> methods a = Some []) \<longrightarrow>
        options a = [] \<and>
        run E a w = run (E\<lparr>execute := (\<lambda>s cs kw. execute E s cs [])\<rparr>) a w)
   \<and> (\<forall>written e.
        execute E (schema a) (selected_checks E a) (options a) = (written, Inl e) \<longrightarrow>
        run E a w = (Inl e, echo ''Running schemathesis test cases ...'' w))
   \<and> (\<forall>written data.
        execute E (schema a) (selected_checks E a) (options a) = (written, Inr data) \<longrightarrow>
        run E a w =
          report E data written (echo ''Running schemathesis test cases ...'' w))
   \<and> (\<forall>E'. DEFAULT_CHECKS E' = DEFAULT_CHECKS E \<and>
          pretty_print_stats E' = pretty_print_stats E \<and>
          execute E' (schema a) (selected_checks E a) (options a) =
            execute E (schema a) (selected_checks E a) (options a) \<longrightarrow>
        run E' a w = run E a w)"
proof -
  have top: "\<forall>(k, v) \<in> set (options a). v \<notin> falsy_values"
    unfolding options_def by (rule dict_true_values_not_falsy)
  have api: "\<forall>(k, v) \<in> set (api_options a). v \<notin> falsy_values"
    unfolding api_options_def by (rule dict_true_values_not_falsy)
  have loader: "\<forall>(k, v) \<in> set (loader_options a). v \<notin> falsy_values"
    unfolding loader_options_def by (rule dict_true_values_not_falsy)
  have bare: "(base_url a = None \<or> base_url a = Some []) \<and> auth a = None \<and>
        headers a = [] \<and> (endpoints a = None \<or> endpoints a = Some []) \<and>
        (methods a = None \<or> methods a = Some []) \<longrightarrow>
      options a = [] \<and>
      run E a w = run (E\<lparr>execute := (\<lambda>s cs kw. execute E s cs [])\<rparr>) a w"
  proof
    assume "(base_url a = None \<or> base_url a = Some []) \<and> auth a = None \<and>
        headers a = [] \<and> (endpoints a = None \<or> endpoints a = Some []) \<and>
        (methods a = None \<or> methods a = Some [])"
    then have "api_options a = []" and "loader_options a = []"
      by (simp_all only: api_options_empty loader_options_empty simp_thms)
    then have empty: "options a = []"
      by (simp only: options_empty simp_thms)
    from empty run_without_options [OF empty]
    show "options a = [] \<and>
        run E a w = run (E\<lparr>execute := (\<lambda>s cs kw. execute E s cs [])\<rparr>) a w"
      by (rule conjI)
  qed
  have raised: "\<forall>written e.
      execute E (schema a) (selected_checks E a) (options a) = (written, Inl e) \<longrightarrow>
      run E a w = (Inl e, echo ''Running schemathesis test cases ...'' w)"
    by (intro allI impI) (rule run_raises)
  have returned: "\<forall>written data.
      execute E (schema a) (selected_checks E a) (options a) = (written, Inr data) \<longrightarrow>
      run E a w = report E data written (echo ''Running schemathesis test cases ...'' w)"
    by (intro allI impI) (rule run_returns)
  have only: "\<forall>E'. DEFAULT_CHECKS E' = DEFAULT_CHECKS E \<and>
        pretty_print_stats E' = pretty_print_stats E \<and>
        execute E' (schema a) (selected_checks E a) (options a) =
          execute E (schema a) (selected_checks E a) (options a) \<longrightarrow>
      run E' a w = run E a w"
  proof (intro allI impI)
    fix E' :: env
    assume agree: "DEFAULT_CHECKS E' = DEFAULT_CHECKS E \<and>
        pretty_print_stats E' = pretty_print_stats E \<and>
        execute E' (schema a) (selected_checks E a) (options a) =
          execute E (schema a) (selected_checks E a) (options a)"
    then have sel: "selected_checks E' a = selected_checks E a"
      by (simp add: selected_checks_def)
    have rep: "report E' = report E"
      using agree by (simp add: report_def fun_eq_iff)
    obtain written result
      where call: "execute E (schema a) (selected_checks E a) (options a) = (written, result)"
      by fastforce
    with agree sel
    have call': "execute E' (schema a) (selected_checks E' a) (options a) = (written, result)"
      by simp
    show "run E' a w = run E a w"
    proof (cases result)
      case (Inl e)
      with call call' show ?thesis by (simp add: run_raises)
    next
      case (Inr data)
      with call call' show ?thesis by (simp add: run_returns rep)
    qed
  qed
  show ?thesis
    by (intro conjI)
      (rule top api loader options_keys options_api options_loader api_options_empty
        loader_options_empty api_options_base_url api_options_auth api_options_headers
        loader_options_endpoint loader_options_method bare raised returned only)+
qed

theorem options_pruned_witness:
  "options (sample_args ''ok'') = []
   \<and> options digest_args =
       [(''api_options'',
           PDict [(''auth'', PDigestAuth ''admin'' ''secret''),
                  (''headers'', PDict [(''X-Test'', PStr ''1'')])]),
        (''loader_options'', PDict [(''endpoint'', PTuple [PStr ''/users''])])]
   \<and> run probe_env digest_args quiet =
       report probe_env
         [(''keywords'',
           [(''api_options'',
               PDict [(''auth'', PDigestAuth ''admin'' ''secret''),
                      (''headers'', PDict [(''X-Test'', PStr ''1'')])]),
            (''loader_options'', PDict [(''endpoint'', PTuple [PStr ''/users''])])])]
         [] (echo ''Running schemathesis test cases ...'' quiet)
   \<and> run probe_env (sample_args ''ok'') quiet =
       report probe_env [(''keywords'', [])] []
         (echo ''Running schemathesis test cases ...'' quiet)"
proof -
  have bare: "(base_url (sample_args ''ok'') = None \<or> base_url (sample_args ''ok'') = Some [])
      \<and> auth (sample_args ''ok'') = None \<and> headers (sample_args ''ok'') = []
      \<and> (endpoints (sample_args ''ok'') = None \<or> endpoints (sample_args ''ok'') = Some [])
      \<and> (methods (sample_args ''ok'') = None \<or> methods (sample_args ''ok'') = Some [])"
    by (simp add: sample_args_def)
  from options_pruned [of "sample_args ''ok''" sample_env quiet] bare
  have none: "options (sample_args ''ok'') = []" by blast
  have given: "options digest_args =
       [(''api_options'',
           PDict [(''auth'', PDigestAuth ''admin'' ''secret''),
                  (''headers'', PDict [(''X-Test'', PStr ''1'')])]),
        (''loader_options'', PDict [(''endpoint'', PTuple [PStr ''/users''])])]"
    by (simp add: options_def api_options_def loader_options_def dict_true_values_def
          digest_args_def opt_str_def opt_filter_def headers_dict_def resolved_auth_def)
  have probe: "execute probe_env (schema b) (selected_checks probe_env b) (options b) =
      ([], Inr [(''keywords'', options b)])" for b
    by (simp add: probe_env_def)
  from options_pruned [of digest_args probe_env quiet] probe [of digest_args]
  have "run probe_env digest_args quiet =
      report probe_env [(''keywords'', options digest_args)] []
        (echo ''Running schemathesis test cases ...'' quiet)"
    by blast
  then have seen: "run probe_env digest_args quiet =
       report probe_env
         [(''keywords'',
           [(''api_options'',
               PDict [(''auth'', PDigestAuth ''admin'' ''secret''),
                      (''headers'', PDict [(''X-Test'', PStr ''1'')])]),
            (''loader_options'', PDict [(''endpoint'', PTuple [PStr ''/users''])])])]
         [] (echo ''Running schemathesis test cases ...'' quiet)"
    by (simp only: given)
  from options_pruned [of "sample_args ''ok''" probe_env quiet] probe [of "sample_args ''ok''"]
  have "run probe_env (sample_args ''ok'') quiet =
      report probe_env [(''keywords'', options (sample_args ''ok''))] []
        (echo ''Running schemathesis test cases ...'' quiet)"
    by blast
  then have alone: "run probe_env (sample_args ''ok'') quiet =
       report probe_env [(''keywords'', [])] []
         (echo ''Running schemathesis test cases ...'' quiet)"
    by (simp only: none)
  from none given seen alone show ?thesis by (intro conjI)
qed

text \<open>
  Claim C5. Without \<open>auth\<close> no credential is made and the engine's options have no
  \<open>auth\<close> entry. With \<open>auth = (user, password)\<close> the engine is given the pair itself
  when the type is \<open>basic\<close>, and \<open>HTTPDigestAuth(user, password)\<close> when the type is
  \<open>digest\<close>.
\<close>

theorem credential_resolution:
  "(auth a = None \<longrightarrow>
      resolved_auth a = PNone \<and> engine_auth a = None \<and>
      map_of (api_options a) ''auth'' = None)
   \<and> (auth a = Some (user, password) \<and> auth_type a = ''basic'' \<longrightarrow>
      resolved_auth a = PTuple [PStr user, PStr password] \<and>
      engine_auth a = Some (PTuple [PStr user, PStr password]))
   \<and> (auth a = Some (user, password) \<and> auth_type a = ''digest'' \<longrightarrow>
      resolved_auth a = PDigestAuth user password \<and>
      engine_auth a = Some (PDigestAuth user password))"
  by (simp add: engine_auth_eq api_options_auth resolved_auth_def)

theorem credential_resolution_witness:
  "engine_auth digest_args = Some (PDigestAuth ''admin'' ''secret'')
   \<and> engine_auth (digest_args\<lparr>auth_type := ''basic''\<rparr>) =
       Some (PTuple [PStr ''admin'', PStr ''secret''])
   \<and> engine_auth (sample_args ''ok'') = None"
proof -
  have "auth digest_args = Some (''admin'', ''secret'') \<and> auth_type digest_args = ''digest''"
    by (simp add: digest_args_def)
  with credential_resolution [of digest_args "''admin''" "''secret''"]
  have digest: "engine_auth digest_args = Some (PDigestAuth ''admin'' ''secret'')"
    by blast
  have "auth (digest_args\<lparr>auth_type := ''basic''\<rparr>) = Some (''admin'', ''secret'')
      \<and> auth_type (digest_args\<lparr>auth_type := ''basic''\<rparr>) = ''basic''"
    by (simp add: digest_args_def)
  with credential_resolution [of "digest_args\<lparr>auth_type := ''basic''\<rparr>" "''admin''" "''secret''"]
  have basic: "engine_auth (digest_args\<lparr>auth_type := ''basic''\<rparr>) =
      Some (PTuple [PStr ''admin'', PStr ''secret''])"
    by blast
  have "auth (sample_args ''ok'') = None"
    by (simp add: sample_args_def)
  with credential_resolution [of "sample_args ''ok''"]
  have "engine_auth (sample_args ''ok'') = None"
    by blast
  with digest basic show ?thesis by (intro conjI)
qed

lemma lower_basic: "lower ''basic'' = ''basic''"
  by (simp add: lower_def lower_char_def)

lemma lower_digest: "lower ''digest'' = ''digest''"
  by (simp add: lower_def lower_char_def)

lemma auth_type_option_digest:
  "lower mode = ''digest'' \<Longrightarrow> auth_type_option (Some mode) = Some ''digest''"
  by (auto simp: auth_type_option_def choice_convert_def Let_def lower_basic lower_digest)

lemma command_args_digest:
  assumes "lower mode = ''digest''" and "opt_auth_type i = Some mode"
  shows "command_args E i = command_args E (i\<lparr>opt_auth_type := Some ''digest''\<rparr>)"
  using assms auth_type_option_digest [OF assms(1)] auth_type_option_digest [OF lower_digest]
  by (simp add: command_args_def split: option.splits)

text \<open>
  Claim C6. A value of \<open>--auth-type\<close> that is \<open>digest\<close> in any mix of upper and lower
  case is converted to \<open>digest\<close>: the command gets the same parameters, and behaves the
  same, as with \<open>digest\<close> itself, and with \<open>--auth\<close> given the engine receives the
  digest credential of the pair. The value alone never causes a usage error.
\<close>

theorem auth_type_case_insensitive:
  assumes "lower mode = ''digest''"
    and "opt_auth i = Some (user, password)"
    and "opt_auth_type i = Some mode"
  shows "auth_type_option (Some mode) = Some ''digest''
   \<and> (\<forall>a. command_args E i = Some a \<longrightarrow>
          auth_type a = ''digest'' \<and> engine_auth a = Some (PDigestAuth user password))
   \<and> command_args E i = command_args E (i\<lparr>opt_auth_type := Some ''digest''\<rparr>)
   \<and> run_command E i w = run_command E (i\<lparr>opt_auth_type := Some ''digest''\<rparr>) w
   \<and> (command_args E i = None \<longleftrightarrow> checks_option E (opt_checks i) = None)"
proof -
  note mode = auth_type_option_digest [OF assms(1)]
  have args: "auth_type a = ''digest'' \<and> engine_auth a = Some (PDigestAuth user password)"
    if "command_args E i = Some a" for a
  proof -
    from that mode assms(2,3)
    have "auth a = Some (user, password)" and "auth_type a = ''digest''"
      by (auto simp: command_args_def split: option.splits)
    then show ?thesis by (simp add: engine_auth_eq resolved_auth_def)
  qed
  note same = command_args_digest [OF assms(1,3), of E]
  have parsed: "command_args E i = None \<longleftrightarrow> checks_option E (opt_checks i) = None"
    using mode assms(3) by (simp add: command_args_def split: option.splits)
  from same have "run_command E i w = run_command E (i\<lparr>opt_auth_type := Some ''digest''\<rparr>) w"
    by (simp add: run_command_def)
  with mode args same parsed show ?thesis by blast
qed

theorem auth_type_case_insensitive_witness:
  "auth_type_option (Some ''DIGEST'') = Some ''digest''
   \<and> command_args sample_env (sample_invocation ''DiGest'') =
       command_args sample_env (sample_invocation ''digest'')
   \<and> map_option engine_auth (command_args sample_env (sample_invocation ''digest'')) =
       Some (Some (PDigestAuth ''u'' ''p''))"
proof -
  have upper: "lower ''DIGEST'' = ''digest''" and mixed: "lower ''DiGest'' = ''digest''"
    by (simp_all add: lower_def lower_char_def)
  have given: "opt_auth (sample_invocation m) = Some (''u'', ''p'')"
    "opt_auth_type (sample_invocation m) = Some m" for m
    by (simp_all add: sample_invocation_def)
  from auth_type_case_insensitive [OF upper given, of sample_env quiet]
  have one: "auth_type_option (Some ''DIGEST'') = Some ''digest''"
    by blast
  from auth_type_case_insensitive [OF mixed given, of sample_env quiet]
  have "command_args sample_env (sample_invocation ''DiGest'') =
      command_args sample_env
        ((sample_invocation ''DiGest'')\<lparr>opt_auth_type := Some ''digest''\<rparr>)"
    by blast
  then have two: "command_args sample_env (sample_invocation ''DiGest'') =
      command_args sample_env (sample_invocation ''digest'')"
    by (simp add: sample_invocation_def)
  have "map_option engine_auth (command_args sample_env (sample_invocation ''digest'')) =
       Some (Some (PDigestAuth ''u'' ''p''))"
    by (simp add: command_args_def checks_option_def auth_type_option_def choice_convert_def
          sample_invocation_def engine_auth_eq resolved_auth_def)
  with one two show ?thesis by (intro conjI)
qed

subsection \<open>The capture of diagnostics\<close>


lemma length_captures_echo [simp]: "length (captures (echo msg w)) = length (captures w)"
  by (simp add: echo_def)

lemma length_captures_run: "length (captures (snd (run E a w))) = length (captures w)"
proof -
  obtain written result
    where call: "execute E (schema a) (selected_checks E a) (options a) = (written, result)"
    by fastforce
  show ?thesis
  proof (cases result)
    case (Inl e)
    with call show ?thesis by (simp add: run_raises)
  next
    case (Inr data)
    with call show ?thesis by (simp add: run_returns)
  qed
qed

text \<open>
  Claim C3. The capture scope is left on every path of \<open>run\<close>: whatever the engine does,
  as many buffers are active when the command is over as before it started, and none when
  none was. When the engine raises, its exception leaves the command with the state
  restored, and the only thing the command has printed is its first line: no report and no
  banner.
\<close>

theorem capture_released_on_every_path:
  "length (captures (snd (run E a w))) = length (captures w)
   \<and> (captures w = [] \<longrightarrow> captures (snd (run E a w)) = [])
   \<and> (\<forall>written e.
        execute E (schema a) (selected_checks E a) (options a) = (written, Inl e) \<longrightarrow>
        run E a w = (Inl e, echo ''Running schemathesis test cases ...'' w))"
proof (intro conjI allI impI)
  show "length (captures (snd (run E a w))) = length (captures w)"
    by (rule length_captures_run)
  show "captures (snd (run E a w)) = []" if "captures w = []"
    using that length_captures_run [of E a w] by simp
  show "run E a w = (Inl e, echo ''Running schemathesis test cases ...'' w)"
    if "execute E (schema a) (selected_checks E a) (options a) = (written, Inl e)"
    for written e
    using that by (rule run_raises)
qed

theorem capture_released_on_every_path_witness:
  "run sample_env (sample_args ''down'') quiet =
     (Inl (Failure ''unreachable''),
      \<lparr>terminal = [Echo ''Running schemathesis test cases ...''], captures = []\<rparr>)
   \<and> captures (snd (run sample_env (sample_args ''ok'') quiet)) = []"
proof -
  have down: "execute sample_env (schema (sample_args ''down''))
      (selected_checks sample_env (sample_args ''down'')) (options (sample_args ''down'')) =
      ([Written ''X''], Inl (Failure ''unreachable''))"
    by (simp add: sample_env_def sample_execute_def sample_args_def)
  from capture_released_on_every_path [of sample_env "sample_args ''down''" quiet] down
  have "run sample_env (sample_args ''down'') quiet =
      (Inl (Failure ''unreachable''), echo ''Running schemathesis test cases ...'' quiet)"
    by blast
  then have raised: "run sample_env (sample_args ''down'') quiet =
     (Inl (Failure ''unreachable''),
      \<lparr>terminal = [Echo ''Running schemathesis test cases ...''], captures = []\<rparr>)"
    by (simp add: echo_def stdout_write_def quiet_def)
  have "captures quiet = []" by (simp add: quiet_def)
  with capture_released_on_every_path [of sample_env "sample_args ''ok''" quiet]
  have "captures (snd (run sample_env (sample_args ''ok'') quiet)) = []"
    by blast
  with raised show ?thesis by (rule conjI)
qed

text \<open>
  Claim C4 does not hold as stated. The sample engine writes \<open>X\<close> and raises for the
  schema \<open>down\<close>; the command then hands back the exception and its first line only.
  The text is in no stream, and the result is the one of an engine that wrote nothing.
\<close>

theorem diagnostics_dropped_counterexample:
  "execute sample_env (schema (sample_args ''down''))
       (selected_checks sample_env (sample_args ''down'')) (options (sample_args ''down'')) =
     ([Written ''X''], Inl (Failure ''unreachable''))
   \<and> run sample_env (sample_args ''down'') quiet =
     (Inl (Failure ''unreachable''),
      \<lparr>terminal = [Echo ''Running schemathesis test cases ...''], captures = []\<rparr>)
   \<and> run sample_env (sample_args ''down'') quiet = run silent_env (sample_args ''down'') quiet
   \<and> \<not> diagnostics_kept [Written ''X''] (run sample_env (sample_args ''down'') quiet)"
proof -
  have down: "execute sample_env (schema (sample_args ''down''))
      (selected_checks sample_env (sample_args ''down'')) (options (sample_args ''down'')) =
      ([Written ''X''], Inl (Failure ''unreachable''))"
    by (simp add: sample_env_def sample_execute_def sample_args_def)
  have silent: "execute silent_env (schema (sample_args ''down''))
      (selected_checks silent_env (sample_args ''down'')) (options (sample_args ''down'')) =
      ([], Inl (Failure ''unreachable''))"
    by (simp add: silent_env_def)
  have raised: "run sample_env (sample_args ''down'') quiet =
     (Inl (Failure ''unreachable''),
      \<lparr>terminal = [Echo ''Running schemathesis test cases ...''], captures = []\<rparr>)"
    by (simp add: run_raises [OF down] echo_def stdout_write_def quiet_def)
  have same: "run sample_env (sample_args ''down'') quiet =
      run silent_env (sample_args ''down'') quiet"
    by (simp add: run_raises [OF down] run_raises [OF silent])
  have "\<not> diagnostics_kept [Written ''X''] (run sample_env (sample_args ''down'') quiet)"
    by (simp add: raised diagnostics_kept_def)
  with down raised same show ?thesis by (intro conjI)
qed

text \<open>
  Claim C4, amended. When the engine raises after writing diagnostic text, its exception
  leaves the command unchanged and the capture scope is left first; the buffered text is
  dropped with the buffer, since \<open>get_stdout()\<close> is only read after the engine has
  returned: what the command prints and raises is the same whatever the engine wrote.
\<close>

theorem diagnostics_dropped_on_failure:
  assumes "execute E (schema a) (selected_checks E a) (options a) = (written, Inl e)"
    and "execute E' (schema a) (selected_checks E' a) (options a) = (written', Inl e)"
  shows "fst (run E a w) = Inl e
   \<and> snd (run E a w) = echo ''Running schemathesis test cases ...'' w
   \<and> length (captures (snd (run E a w))) = length (captures w)
   \<and> run E a w = run E' a w"
  by (simp add: run_raises [OF assms(1)] run_raises [OF assms(2)])

theorem diagnostics_dropped_on_failure_witness:
  "fst (run sample_env (sample_args ''down'') quiet) = Inl (Failure ''unreachable'')
   \<and> run sample_env (sample_args ''down'') quiet = run silent_env (sample_args ''down'') quiet
   \<and> length (captures (snd (run sample_env (sample_args ''down'') quiet))) = 0"
proof -
  have down: "execute sample_env (schema (sample_args ''down''))
      (selected_checks sample_env (sample_args ''down'')) (options (sample_args ''down'')) =
      ([Written ''X''], Inl (Failure ''unreachable''))"
    by (simp add: sample_env_def sample_execute_def sample_args_def)
  have silent: "execute silent_env (schema (sample_args ''down''))
      (selected_checks silent_env (sample_args ''down'')) (options (sample_args ''down'')) =
      ([], Inl (Failure ''unreachable''))"
    by (simp add: silent_env_def)
  note dropped = diagnostics_dropped_on_failure [OF down silent, of quiet]
  from dropped have "fst (run sample_env (sample_args ''down'') quiet) =
      Inl (Failure ''unreachable'')"
    by (rule conjunct1)
  moreover from dropped have "run sample_env (sample_args ''down'') quiet =
      run silent_env (sample_args ''down'') quiet"
    by blast
  moreover from dropped
  have "length (captures (snd (run sample_env (sample_args ''down'') quiet))) =
      length (captures quiet)"
    by blast
  then have "length (captures (snd (run sample_env (sample_args ''down'') quiet))) = 0"
    by (simp add: quiet_def)
  ultimately show ?thesis by (intro conjI)
qed

end
